theory Spec2Isabelle
  imports Main "HOL-Library.Word"
begin

section \<open>The Windows runner entry point (windows/runner/main.cpp)\<close>

text \<open>
  The file holds one function, \<^verbatim>\<open>wWinMain\<close>. Everything it does is a call into the
  operating system, the C runtime, the Flutter embedder or the runner's own helper
  classes, so the model is a state-passing transcription of its body: each call written
  in the source appends one event, with its arguments, to a chronological trace, and each
  answer the function branches on is read from an environment record.
\<close>

subsection \<open>Platform constants and helper types\<close>

text \<open>
  The macros come from the Windows SDK and the C library headers; the values are the
  documented ones. \<^verbatim>\<open>ATTACH_PARENT_PROCESS\<close> is \<^verbatim>\<open>(DWORD)-1\<close>.
\<close>

definition ATTACH_PARENT_PROCESS :: "32 word" where
  "ATTACH_PARENT_PROCESS = - 1"

definition COINIT_APARTMENTTHREADED :: "32 word" where
  "COINIT_APARTMENTTHREADED = 2"

definition SW_HIDE :: int where
  "SW_HIDE = 0"

definition EXIT_SUCCESS :: int where
  "EXIT_SUCCESS = 0"

definition EXIT_FAILURE :: int where
  "EXIT_FAILURE = 1"

text \<open>\<^verbatim>\<open>Win32Window::Point\<close> and \<^verbatim>\<open>Win32Window::Size\<close> (declared in win32_window.h).\<close>

datatype Point = Point nat nat

datatype Size = Size nat nat

text \<open>The two C streams that are reopened; \<^verbatim>\<open>HWND\<close> and \<^verbatim>\<open>MSG\<close> are opaque, a null
  handle is \<open>0\<close>.\<close>

datatype c_stream = stdout | stderr

type_synonym HWND = nat

type_synonym MSG = nat

subsection \<open>Events: the calls written in the body of wWinMain\<close>

datatype event =
    GetCommandLineArguments
  | AttachConsole "32 word"
  | Freopen_s string string c_stream
  | Sync_with_stdio
  | FlutterDesktopResyncOutputStreams
  | IsDebuggerPresent
  | CreateAndAttachConsole
  | CoInitializeEx "32 word"
  | DartProject string
  | Set_dart_entrypoint_arguments "string list"
  | FlutterWindow
  | Create string Point Size
  | GetHandle
  | ShowWindow HWND int
  | SetQuitOnClose bool
  | GetMessage
  | TranslateMessage MSG
  | DispatchMessage MSG
  | CoUninitialize

subsection \<open>Environment and program state\<close>

text \<open>
  The environment fixes what the outside world answers during one invocation:
  \<^item> \<open>command_line\<close>: the vector returned by \<^verbatim>\<open>GetCommandLineArguments()\<close>;
  \<^item> \<open>moved_from\<close>: what a moved-from \<^verbatim>\<open>std::vector\<close> holds afterwards (C++ leaves it
    valid but unspecified);
  \<^item> \<open>attach_console_ok\<close>: whether \<^verbatim>\<open>AttachConsole(ATTACH_PARENT_PROCESS)\<close> returns non-zero;
  \<^item> \<open>debugger_present\<close>: the answer of \<^verbatim>\<open>IsDebuggerPresent()\<close>;
  \<^item> \<open>create_ok\<close>: the answer of \<^verbatim>\<open>window.Create(...)\<close>;
  \<^item> \<open>window_handle\<close>: the answer of \<^verbatim>\<open>window.GetHandle()\<close>;
  \<^item> \<open>next_message\<close>: for the \<open>i\<close>-th call of \<^verbatim>\<open>GetMessage\<close>, the \<^verbatim>\<open>BOOL\<close> it returns
    (\<open>0\<close> for a posted quit, \<open>-1\<close> for an error, another non-zero value otherwise) and the
    message it stores.
\<close>

record env =
  command_line :: "string list"
  moved_from :: "string list"
  attach_console_ok :: bool
  debugger_present :: bool
  create_ok :: bool
  window_handle :: HWND
  next_message :: "nat \<Rightarrow> int \<times> MSG"

text \<open>
  The state is the trace of calls made so far together with the local variables of
  \<^verbatim>\<open>wWinMain\<close> that the claims speak about, and the entrypoint arguments stored in the
  \<^verbatim>\<open>DartProject\<close>.
\<close>

record state =
  trace :: "event list"
  command_line_arguments :: "string list"
  has_cli_args :: bool
  dart_entrypoint_arguments :: "string list"
  msg :: MSG

definition init_state :: state where
  "init_state = \<lparr>trace = [], command_line_arguments = [], has_cli_args = False,
                 dart_entrypoint_arguments = [], msg = 0\<rparr>"

definition call :: "event \<Rightarrow> state \<Rightarrow> state" where
  "call e s = s\<lparr>trace := trace s @ [e]\<rparr>"

subsection \<open>Lines 20 to 32: the console decision\<close>

text \<open>
  \<^verbatim>\<open>has_cli_args || ::IsDebuggerPresent()\<close> short-circuits: the debugger is only asked
  when there are no arguments.
\<close>

definition console_attachment :: "env \<Rightarrow> state \<Rightarrow> state" where
  "console_attachment e s0 =
     (let s = call (AttachConsole ATTACH_PARENT_PROCESS) s0 in
      if attach_console_ok e then
        (let s = call (Freopen_s ''CONOUT$'' ''w'' stdout) s;
             s = call (Freopen_s ''CONOUT$'' ''w'' stderr) s;
             s = call Sync_with_stdio s
         in call FlutterDesktopResyncOutputStreams s)
      else
        (let (c, s) = (if has_cli_args s then (True, s)
                       else (debugger_present e, call IsDebuggerPresent s))
         in if c then call CreateAndAttachConsole s else s))"

subsection \<open>Lines 62 to 66: the message loop\<close>

text \<open>
  The loop runs for as long as \<^verbatim>\<open>GetMessage\<close> answers non-zero, which may be forever.
  The model takes a bound \<open>fuel\<close> on the number of \<^verbatim>\<open>GetMessage\<close> calls observed; it
  returns the state reached and whether the loop was left (\<open>True\<close>) or is still running
  when the bound is hit (\<open>False\<close>). \<open>i\<close> counts the calls made so far.
\<close>

fun message_loop :: "nat \<Rightarrow> env \<Rightarrow> nat \<Rightarrow> state \<Rightarrow> state \<times> bool" where
  "message_loop 0 e i s = (s, False)"
| "message_loop (Suc fuel) e i s =
     (let (r, m) = next_message e i;
          s = call GetMessage (s\<lparr>msg := m\<rparr>)
      in if r \<noteq> 0 then
           (let s = call (TranslateMessage (msg s)) s;
                s = call (DispatchMessage (msg s)) s
            in message_loop fuel e (Suc i) s)
         else (s, True))"

subsection \<open>wWinMain\<close>

text \<open>
  The result is the final state and the exit status: \<open>Some c\<close> when the function
  returned \<open>c\<close>, \<open>None\<close> when it is still inside the message loop after \<open>fuel\<close> calls of
  \<^verbatim>\<open>GetMessage\<close>. The parameters \<^verbatim>\<open>instance\<close>, \<^verbatim>\<open>prev\<close>, \<^verbatim>\<open>command_line\<close> and
  \<^verbatim>\<open>show_command\<close> are never used by the body and are left out.
\<close>

definition wWinMain :: "nat \<Rightarrow> env \<Rightarrow> state \<times> int option" where
  "wWinMain fuel e =
     (let s = call GetCommandLineArguments init_state;
          s = s\<lparr>command_line_arguments := command_line e\<rparr>;
          s = s\<lparr>has_cli_args := (command_line_arguments s \<noteq> [])\<rparr>;
          s = console_attachment e s;
          s = call (CoInitializeEx COINIT_APARTMENTTHREADED) s;
          s = call (DartProject ''data'') s;
          s = call (Set_dart_entrypoint_arguments (command_line_arguments s)) s;
          s = s\<lparr>dart_entrypoint_arguments := command_line_arguments s,
                command_line_arguments := moved_from e\<rparr>;
          s = call FlutterWindow s;
          origin = Point 10 10;
          sz = Size 1280 720;
          s = call (Create ''EasyGUIFlashTool'' origin sz) s
      in if \<not> create_ok e then (s, Some EXIT_FAILURE)
         else
           (let s = (if has_cli_args s then
                       (let s = call GetHandle s;
                            hwnd = window_handle e
                        in if hwnd \<noteq> 0 then call (ShowWindow hwnd SW_HIDE) s else s)
                     else s);
                s = call (SetQuitOnClose True) s;
                (s, quit) = message_loop fuel e 0 s
            in if quit then (call CoUninitialize s, Some EXIT_SUCCESS)
               else (s, None)))"

subsection \<open>Vocabulary for the properties\<close>

text \<open>
  The events the message loop appends when it is observed for \<open>fuel\<close> calls of
  \<^verbatim>\<open>GetMessage\<close>, starting at call number \<open>i\<close>.
\<close>

fun loop_events :: "nat \<Rightarrow> env \<Rightarrow> nat \<Rightarrow> event list" where
  "loop_events 0 e i = []"
| "loop_events (Suc fuel) e i =
     (let (r, m) = next_message e i
      in GetMessage #
         (if r \<noteq> 0 then TranslateMessage m # DispatchMessage m # loop_events fuel e (Suc i)
          else []))"

text \<open>Calls that act on the console or on the standard streams.\<close>

fun is_console_event :: "event \<Rightarrow> bool" where
  "is_console_event (AttachConsole _) = True"
| "is_console_event (Freopen_s _ _ _) = True"
| "is_console_event Sync_with_stdio = True"
| "is_console_event FlutterDesktopResyncOutputStreams = True"
| "is_console_event CreateAndAttachConsole = True"
| "is_console_event _ = False"

fun is_ShowWindow :: "event \<Rightarrow> bool" where
  "is_ShowWindow (ShowWindow _ _) = True"
| "is_ShowWindow _ = False"

fun is_Create :: "event \<Rightarrow> bool" where
  "is_Create (Create _ _ _) = True"
| "is_Create _ = False"

fun is_Set_dart_entrypoint_arguments :: "event \<Rightarrow> bool" where
  "is_Set_dart_entrypoint_arguments (Set_dart_entrypoint_arguments _) = True"
| "is_Set_dart_entrypoint_arguments _ = False"

fun is_loop_event :: "event \<Rightarrow> bool" where
  "is_loop_event GetMessage = True"
| "is_loop_event (TranslateMessage _) = True"
| "is_loop_event (DispatchMessage _) = True"
| "is_loop_event _ = False"

text \<open>
  A message source for concrete runs: \<open>n\<close> ordinary messages (numbered from \<open>0\<close>, answer
  \<open>1\<close>), then the posted quit.
\<close>

definition quit_after :: "nat \<Rightarrow> nat \<Rightarrow> int \<times> MSG" where
  "quit_after n i = (if i < n then (1, i) else (0, 0))"

text \<open>Concrete invocations, after the scenarios of the specification.\<close>

definition gui_launch :: env where
  "gui_launch = \<lparr>command_line = [], moved_from = [], attach_console_ok = False,
                 debugger_present = False, create_ok = True, window_handle = 7,
                 next_message = quit_after 2\<rparr>"

definition cli_from_terminal :: env where
  "cli_from_terminal = \<lparr>command_line = [''--flash'', ''device1''], moved_from = [],
                        attach_console_ok = True, debugger_present = False,
                        create_ok = True, window_handle = 7,
                        next_message = quit_after 1\<rparr>"

definition cli_standalone :: env where
  "cli_standalone = \<lparr>command_line = [''--flash''], moved_from = [],
                     attach_console_ok = False, debugger_present = False,
                     create_ok = True, window_handle = 7,
                     next_message = quit_after 1\<rparr>"

definition create_fails :: env where
  "create_fails = \<lparr>command_line = [''--flash''], moved_from = [],
                   attach_console_ok = False, debugger_present = False,
                   create_ok = False, window_handle = 0,
                   next_message = quit_after 0\<rparr>"

definition cli_null_handle :: env where
  "cli_null_handle = \<lparr>command_line = [''--flash''], moved_from = [],
                      attach_console_ok = False, debugger_present = False,
                      create_ok = True, window_handle = 0,
                      next_message = quit_after 1\<rparr>"

section \<open>Auxiliary facts\<close>

subsection \<open>The message loop\<close>

lemma message_loop_trace:
  "trace (fst (message_loop fuel e i s)) = trace s @ loop_events fuel e i"
  by (induction fuel arbitrary: i s) (simp_all add: call_def Let_def split: prod.splits)

lemma message_loop_quit:
  "snd (message_loop fuel e i s) = (\<exists>j<fuel. fst (next_message e (i + j)) = 0)"
proof (induction fuel arbitrary: i s)
  case 0
  show ?case by simp
next
  case (Suc fuel)
  obtain r m where rm: "next_message e i = (r, m)" by (cases "next_message e i")
  show ?case
  proof (cases "r = 0")
    case True
    then have "fst (next_message e (i + 0)) = 0" using rm by simp
    then have "\<exists>j<Suc fuel. fst (next_message e (i + j)) = 0" by blast
    then show ?thesis using rm True by (simp add: Let_def)
  next
    case False
    have "(\<exists>j<Suc fuel. fst (next_message e (i + j)) = 0)
          = (\<exists>j<fuel. fst (next_message e (Suc i + j)) = 0)"
    proof
      assume "\<exists>j<Suc fuel. fst (next_message e (i + j)) = 0"
      then obtain j where j: "j < Suc fuel" "fst (next_message e (i + j)) = 0" by blast
      with rm False have "j \<noteq> 0" by (cases j) auto
      then obtain k where "j = Suc k" by (cases j) auto
      with j show "\<exists>j<fuel. fst (next_message e (Suc i + j)) = 0" by auto
    next
      assume "\<exists>j<fuel. fst (next_message e (Suc i + j)) = 0"
      then obtain j where "j < fuel" "fst (next_message e (Suc i + j)) = 0" by blast
      then have "Suc j < Suc fuel" "fst (next_message e (i + Suc j)) = 0" by simp_all
      then show "\<exists>j<Suc fuel. fst (next_message e (i + j)) = 0" by blast
    qed
    then show ?thesis using rm False Suc.IH by (simp add: Let_def)
  qed
qed

lemma message_loop_locals:
  "has_cli_args (fst (message_loop fuel e i s)) = has_cli_args s"
  "command_line_arguments (fst (message_loop fuel e i s)) = command_line_arguments s"
  "dart_entrypoint_arguments (fst (message_loop fuel e i s)) = dart_entrypoint_arguments s"
  by (induction fuel arbitrary: i s; simp add: call_def Let_def split: prod.splits)+

lemma loop_events_are_loop_events:
  "\<forall>x \<in> set (loop_events fuel e i). is_loop_event x"
  by (induction fuel arbitrary: i) (auto simp: Let_def split: prod.splits)


subsection \<open>What the loop can and cannot call\<close>

lemma loop_event_kinds:
  "is_loop_event x \<Longrightarrow>
     \<not> is_console_event x \<and> \<not> is_ShowWindow x \<and> \<not> is_Create x
     \<and> \<not> is_Set_dart_entrypoint_arguments x \<and> x \<noteq> CreateAndAttachConsole
     \<and> x \<noteq> CoUninitialize \<and> x \<noteq> SetQuitOnClose b"
  by (cases x) simp_all

lemma filter_loop_events:
  "filter is_console_event (loop_events fuel e i) = []"
  "filter is_ShowWindow (loop_events fuel e i) = []"
  "filter is_Create (loop_events fuel e i) = []"
  "filter is_Set_dart_entrypoint_arguments (loop_events fuel e i) = []"
  "filter is_loop_event (loop_events fuel e i) = loop_events fuel e i"
  using loop_events_are_loop_events [of fuel e i] loop_event_kinds
  by (auto simp: filter_empty_conv filter_id_conv)

lemma loop_events_no_setup:
  "CreateAndAttachConsole \<notin> set (loop_events fuel e i)"
  "CoUninitialize \<notin> set (loop_events fuel e i)"
  "SetQuitOnClose b \<notin> set (loop_events fuel e i)"
  using loop_events_are_loop_events [of fuel e i] loop_event_kinds by blast+

subsection \<open>Closed forms of a run\<close>

lemma console_attachment_trace:
  "trace (console_attachment e s) = trace s @ AttachConsole ATTACH_PARENT_PROCESS #
     (if attach_console_ok e then
        [Freopen_s ''CONOUT$'' ''w'' stdout, Freopen_s ''CONOUT$'' ''w'' stderr,
         Sync_with_stdio, FlutterDesktopResyncOutputStreams]
      else if has_cli_args s then [CreateAndAttachConsole]
      else if debugger_present e then [IsDebuggerPresent, CreateAndAttachConsole]
      else [IsDebuggerPresent])"
  by (simp add: console_attachment_def call_def Let_def)

lemma console_attachment_locals:
  "has_cli_args (console_attachment e s) = has_cli_args s"
  "command_line_arguments (console_attachment e s) = command_line_arguments s"
  "dart_entrypoint_arguments (console_attachment e s) = dart_entrypoint_arguments s"
  by (simp_all add: console_attachment_def call_def Let_def)

lemma wWinMain_status:
  "snd (wWinMain fuel e) =
     (if \<not> create_ok e then Some EXIT_FAILURE
      else if \<exists>i<fuel. fst (next_message e i) = 0 then Some EXIT_SUCCESS else None)"
  by (auto simp: wWinMain_def Let_def case_prod_beta message_loop_quit)

lemma wWinMain_locals:
  "has_cli_args (fst (wWinMain fuel e)) = (command_line e \<noteq> [])"
  "dart_entrypoint_arguments (fst (wWinMain fuel e)) = command_line e"
  "command_line_arguments (fst (wWinMain fuel e)) = moved_from e"
  by (simp_all add: wWinMain_def Let_def case_prod_beta call_def message_loop_locals
        console_attachment_locals)

lemma wWinMain_trace:
  "trace (fst (wWinMain fuel e)) =
     GetCommandLineArguments # AttachConsole ATTACH_PARENT_PROCESS #
     (if attach_console_ok e then
        [Freopen_s ''CONOUT$'' ''w'' stdout, Freopen_s ''CONOUT$'' ''w'' stderr,
         Sync_with_stdio, FlutterDesktopResyncOutputStreams]
      else if command_line e \<noteq> [] then [CreateAndAttachConsole]
      else if debugger_present e then [IsDebuggerPresent, CreateAndAttachConsole]
      else [IsDebuggerPresent]) @
     [CoInitializeEx COINIT_APARTMENTTHREADED, DartProject ''data'',
      Set_dart_entrypoint_arguments (command_line e), FlutterWindow,
      Create ''EasyGUIFlashTool'' (Point 10 10) (Size 1280 720)] @
     (if \<not> create_ok e then []
      else
        (if command_line e \<noteq> [] then
           GetHandle # (if window_handle e \<noteq> 0 then [ShowWindow (window_handle e) SW_HIDE] else [])
         else []) @
        SetQuitOnClose True # loop_events fuel e 0 @
        (if \<exists>i<fuel. fst (next_message e i) = 0 then [CoUninitialize] else []))"
  by (auto simp: wWinMain_def Let_def case_prod_beta call_def message_loop_trace
        message_loop_quit console_attachment_trace console_attachment_locals init_state_def)

subsection \<open>Independence from unused parts of the environment\<close>

lemma message_loop_env_cong:
  "next_message e' = next_message e \<Longrightarrow> message_loop fuel e' i s = message_loop fuel e i s"
  by (induction fuel arbitrary: i s) (simp_all add: Let_def case_prod_beta)

lemma loop_events_env_cong:
  "next_message e' = next_message e \<Longrightarrow> loop_events fuel e' i = loop_events fuel e i"
  by (induction fuel arbitrary: i) (simp_all add: Let_def case_prod_beta)

lemma message_loop_dead_variable:
  "message_loop fuel e i (s\<lparr>command_line_arguments := a\<rparr>) =
     ((fst (message_loop fuel e i s))\<lparr>command_line_arguments := a\<rparr>,
      snd (message_loop fuel e i s))"
proof (induction fuel arbitrary: i s)
  case 0
  show ?case by simp
next
  case (Suc fuel)
  have c: "\<And>ev t. call ev (t\<lparr>command_line_arguments := a\<rparr>) = (call ev t)\<lparr>command_line_arguments := a\<rparr>"
    by (simp add: call_def)
  have m: "\<And>v t. (t\<lparr>command_line_arguments := a\<rparr>)\<lparr>msg := v\<rparr> = (t\<lparr>msg := v\<rparr>)\<lparr>command_line_arguments := a\<rparr>"
    by simp
  have g: "\<And>t. msg (t\<lparr>command_line_arguments := a\<rparr>) = msg t"
    by simp
  show ?case
    by (simp only: message_loop.simps Let_def case_prod_beta c m g Suc.IH fst_conv snd_conv if_distrib [of fst] if_distrib [of snd] if_distrib [of "\<lambda>t. t\<lparr>command_line_arguments := a\<rparr>"] split: if_split) simp
qed

lemma console_attachment_env_cong:
  "console_attachment (e\<lparr>moved_from := a\<rparr>) s = console_attachment e s"
  by (simp add: console_attachment_def Let_def case_prod_beta)

lemma loop_events_keep:
  "filter (\<lambda>x. \<not> is_ShowWindow x) (loop_events fuel e i) = loop_events fuel e i"
  using filter_loop_events(2)[of fuel e i] by (simp add: filter_empty_conv filter_id_conv)

lemma loop_events_no_ShowWindow: "ShowWindow h c \<notin> set (loop_events fuel e i)"
  using filter_loop_events(2)[of fuel e i] by (auto simp: filter_empty_conv)

subsection \<open>Returning runs\<close>

lemma quit_after_quits: "(\<exists>i<fuel. fst (quit_after n i) = 0) = (n < fuel)"
proof
  assume "\<exists>i<fuel. fst (quit_after n i) = 0"
  then obtain i where "i < fuel" "fst (quit_after n i) = 0" by blast
  then show "n < fuel" by (cases "i < n") (simp_all add: quit_after_def)
next
  assume "n < fuel"
  moreover have "fst (quit_after n n) = 0" by (simp add: quit_after_def)
  ultimately show "\<exists>i<fuel. fst (quit_after n i) = 0" by blast
qed

lemma message_loop_fuel_mono:
  "snd (message_loop fuel e i s) \<Longrightarrow> message_loop (fuel + k) e i s = message_loop fuel e i s"
proof (induction fuel arbitrary: i s)
  case 0
  then show ?case by simp
next
  case (Suc fuel)
  show ?case
  proof (cases "fst (next_message e i) = 0")
    case True
    then show ?thesis by (simp add: Let_def case_prod_beta)
  next
    case False
    with Suc.prems show ?thesis
      by (simp add: Let_def case_prod_beta Suc.IH)
  qed
qed

lemma wWinMain_fuel_mono:
  assumes "snd (wWinMain fuel e) = Some c"
  shows "wWinMain (fuel + k) e = wWinMain fuel e"
proof (cases "create_ok e")
  case False
  then show ?thesis by (simp add: wWinMain_def Let_def)
next
  case True
  with assms have "\<exists>i<fuel. fst (next_message e i) = 0"
    by (auto simp: wWinMain_status split: if_splits)
  then have "snd (message_loop fuel e 0 s) " for s
    by (simp add: message_loop_quit)
  then have "message_loop (fuel + k) e 0 s = message_loop fuel e 0 s" for s
    by (rule message_loop_fuel_mono)
  then show ?thesis by (simp add: wWinMain_def Let_def)
qed

section \<open>The claims\<close>

text \<open>
  Claim C1. The console decision is a three-way exclusive branch. Projected onto the calls
  that touch the console, every run (whatever the number of loop iterations observed) is
  exactly one of three sequences: the attach to the parent console succeeded, and stdout
  and stderr are reopened and the streams resynchronised, with no new console; or the
  attach failed and a new console is created, which happens only when \<open>has_cli_args\<close>
  holds or a debugger is present; or the attach failed and nothing else is done.
\<close>

theorem console_decision_three_way:
  "filter is_console_event (trace (fst (wWinMain fuel e))) =
     (if attach_console_ok e then
        [AttachConsole ATTACH_PARENT_PROCESS, Freopen_s ''CONOUT$'' ''w'' stdout,
         Freopen_s ''CONOUT$'' ''w'' stderr, Sync_with_stdio,
         FlutterDesktopResyncOutputStreams]
      else if has_cli_args (fst (wWinMain fuel e)) \<or> debugger_present e then
        [AttachConsole ATTACH_PARENT_PROCESS, CreateAndAttachConsole]
      else [AttachConsole ATTACH_PARENT_PROCESS])"
  by (simp add: wWinMain_trace wWinMain_locals filter_loop_events)

text \<open>
  The three branches on concrete runs: launched from a terminal with arguments, launched
  standalone with an argument, and launched with no argument, no debugger and no parent
  console.
\<close>

theorem console_decision_three_way_witness:
  "filter is_console_event (trace (fst (wWinMain 3 cli_from_terminal))) =
     [AttachConsole ATTACH_PARENT_PROCESS, Freopen_s ''CONOUT$'' ''w'' stdout,
      Freopen_s ''CONOUT$'' ''w'' stderr, Sync_with_stdio, FlutterDesktopResyncOutputStreams]
   \<and> filter is_console_event (trace (fst (wWinMain 3 cli_standalone))) =
     [AttachConsole ATTACH_PARENT_PROCESS, CreateAndAttachConsole]
   \<and> filter is_console_event (trace (fst (wWinMain 3 gui_launch))) =
     [AttachConsole ATTACH_PARENT_PROCESS]"
  using console_decision_three_way [of 3 cli_from_terminal]
    console_decision_three_way [of 3 cli_standalone]
    console_decision_three_way [of 3 gui_launch]
  by (simp add: wWinMain_locals cli_from_terminal_def cli_standalone_def gui_launch_def)

text \<open>
  Claim C2. When \<^verbatim>\<open>window.Create\<close> fails, the function returns \<^verbatim>\<open>EXIT_FAILURE\<close> at once:
  the \<^verbatim>\<open>Create\<close> call is the last call made, no message is ever fetched, translated or
  dispatched, \<^verbatim>\<open>ShowWindow\<close> and \<^verbatim>\<open>SetQuitOnClose\<close> are not called, and neither is
  \<^verbatim>\<open>CoUninitialize\<close>.
\<close>

theorem failed_create_returns_failure_immediately:
  assumes "\<not> create_ok e"
  shows "snd (wWinMain fuel e) = Some EXIT_FAILURE \<and> EXIT_FAILURE \<noteq> 0
       \<and> last (trace (fst (wWinMain fuel e))) =
           Create ''EasyGUIFlashTool'' (Point 10 10) (Size 1280 720)
       \<and> filter is_loop_event (trace (fst (wWinMain fuel e))) = []
       \<and> filter is_ShowWindow (trace (fst (wWinMain fuel e))) = []
       \<and> SetQuitOnClose True \<notin> set (trace (fst (wWinMain fuel e)))
       \<and> CoUninitialize \<notin> set (trace (fst (wWinMain fuel e)))"
  using assms by (simp add: wWinMain_trace wWinMain_status EXIT_FAILURE_def)

text \<open>
  A concrete run in which the window cannot be created.
\<close>

theorem failed_create_returns_failure_immediately_witness:
  "\<not> create_ok create_fails
   \<and> snd (wWinMain 3 create_fails) = Some EXIT_FAILURE \<and> EXIT_FAILURE \<noteq> 0
   \<and> last (trace (fst (wWinMain 3 create_fails))) =
       Create ''EasyGUIFlashTool'' (Point 10 10) (Size 1280 720)
   \<and> filter is_loop_event (trace (fst (wWinMain 3 create_fails))) = []
   \<and> filter is_ShowWindow (trace (fst (wWinMain 3 create_fails))) = []
   \<and> SetQuitOnClose True \<notin> set (trace (fst (wWinMain 3 create_fails)))
   \<and> CoUninitialize \<notin> set (trace (fst (wWinMain 3 create_fails)))"
proof -
  have h: "\<not> create_ok create_fails" by (simp add: create_fails_def)
  show ?thesis using h failed_create_returns_failure_immediately [OF h, of 3] by simp
qed

text \<open>
  Claim C3 asks for \<^verbatim>\<open>CoUninitialize\<close> before every return. The run below, in which
  \<^verbatim>\<open>window.Create\<close> fails, returns \<^verbatim>\<open>EXIT_FAILURE\<close> after having called
  \<^verbatim>\<open>CoInitializeEx\<close> and without ever calling \<^verbatim>\<open>CoUninitialize\<close>; the normal return
  at the end of the function does call it.
\<close>

theorem failed_create_skips_CoUninitialize:
  "snd (wWinMain 3 create_fails) = Some EXIT_FAILURE
   \<and> trace (fst (wWinMain 3 create_fails)) =
       [GetCommandLineArguments, AttachConsole ATTACH_PARENT_PROCESS, CreateAndAttachConsole,
        CoInitializeEx COINIT_APARTMENTTHREADED, DartProject ''data'',
        Set_dart_entrypoint_arguments [''--flash''], FlutterWindow,
        Create ''EasyGUIFlashTool'' (Point 10 10) (Size 1280 720)]
   \<and> CoUninitialize \<notin> set (trace (fst (wWinMain 3 create_fails)))"
  by (simp add: wWinMain_trace wWinMain_status create_fails_def)

text \<open>
  Claim C4 says that with a non-empty argument list and a successfully created window the
  window is always hidden. The hide call sits behind \<^verbatim>\<open>if (hwnd)\<close>: in the run below the
  arguments are non-empty, \<^verbatim>\<open>Create\<close> succeeds and the run ends normally, yet
  \<^verbatim>\<open>GetHandle\<close> answers null and \<^verbatim>\<open>ShowWindow\<close> is never called.
\<close>

theorem cli_null_handle_not_hidden:
  "command_line cli_null_handle \<noteq> [] \<and> create_ok cli_null_handle
   \<and> snd (wWinMain 2 cli_null_handle) = Some EXIT_SUCCESS
   \<and> filter is_ShowWindow (trace (fst (wWinMain 2 cli_null_handle))) = []"
  by (simp add: wWinMain_trace wWinMain_status cli_null_handle_def filter_loop_events
        quit_after_quits)

text \<open>
  Claim C4, amended. In every run with a non-empty argument list and a successful
  \<^verbatim>\<open>Create\<close>, the window is hidden exactly when its handle is non-null: the only
  \<^verbatim>\<open>ShowWindow\<close> call is then \<^verbatim>\<open>ShowWindow(hwnd, SW_HIDE)\<close>. Whether hidden or not, the
  window stays alive and the message loop runs on it: from \<^verbatim>\<open>GetHandle\<close> on, the run
  consists of the hide call (if any), \<^verbatim>\<open>SetQuitOnClose(true)\<close>, and then every message the
  loop fetches, translates and dispatches; the function does not return before a
  \<^verbatim>\<open>GetMessage\<close> call answers \<open>0\<close>, and only then calls \<^verbatim>\<open>CoUninitialize\<close> and returns
  \<^verbatim>\<open>EXIT_SUCCESS\<close>. With an empty argument list \<^verbatim>\<open>ShowWindow\<close> is never called.
\<close>

theorem cli_window_hidden_if_handle:
  "(command_line e \<noteq> [] \<and> create_ok e \<longrightarrow>
        filter is_ShowWindow (trace (fst (wWinMain fuel e))) =
          (if window_handle e \<noteq> 0 then [ShowWindow (window_handle e) SW_HIDE] else [])
      \<and> dropWhile (\<lambda>x. x \<noteq> GetHandle) (trace (fst (wWinMain fuel e))) =
          GetHandle #
          (if window_handle e \<noteq> 0 then [ShowWindow (window_handle e) SW_HIDE] else []) @
          SetQuitOnClose True # loop_events fuel e 0 @
          (if \<exists>i<fuel. fst (next_message e i) = 0 then [CoUninitialize] else [])
      \<and> snd (wWinMain fuel e) =
          (if \<exists>i<fuel. fst (next_message e i) = 0 then Some EXIT_SUCCESS else None))
   \<and> (command_line e = [] \<longrightarrow>
        filter is_ShowWindow (trace (fst (wWinMain fuel e))) = [])"
  by (simp add: wWinMain_trace wWinMain_status filter_loop_events)

text \<open>
  Concrete runs, each with one ordinary message and then the quit: a standalone launch
  with an argument and the window handle \<open>7\<close>, observed for two calls of \<^verbatim>\<open>GetMessage\<close>
  (it returns) and for one (it is still in the loop); the same launch with a null handle;
  and a launch with no argument.
\<close>

theorem cli_window_hidden_if_handle_witness:
  "command_line cli_standalone \<noteq> [] \<and> create_ok cli_standalone
   \<and> filter is_ShowWindow (trace (fst (wWinMain 2 cli_standalone))) = [ShowWindow 7 SW_HIDE]
   \<and> dropWhile (\<lambda>x. x \<noteq> GetHandle) (trace (fst (wWinMain 2 cli_standalone))) =
        [GetHandle, ShowWindow 7 SW_HIDE, SetQuitOnClose True,
         GetMessage, TranslateMessage 0, DispatchMessage 0, GetMessage, CoUninitialize]
   \<and> snd (wWinMain 2 cli_standalone) = Some EXIT_SUCCESS
   \<and> snd (wWinMain 1 cli_standalone) = None
   \<and> command_line cli_null_handle \<noteq> [] \<and> create_ok cli_null_handle
   \<and> dropWhile (\<lambda>x. x \<noteq> GetHandle) (trace (fst (wWinMain 2 cli_null_handle))) =
        [GetHandle, SetQuitOnClose True,
         GetMessage, TranslateMessage 0, DispatchMessage 0, GetMessage, CoUninitialize]
   \<and> snd (wWinMain 1 cli_null_handle) = None
   \<and> command_line gui_launch = []
   \<and> filter is_ShowWindow (trace (fst (wWinMain 2 gui_launch))) = []"
proof -
  have h: "command_line cli_standalone \<noteq> [] \<and> create_ok cli_standalone"
          "command_line cli_null_handle \<noteq> [] \<and> create_ok cli_null_handle"
          "command_line gui_launch = []"
          "window_handle cli_standalone = 7" "window_handle cli_null_handle = 0"
    by (simp_all add: cli_standalone_def cli_null_handle_def gui_launch_def)
  have q: "\<exists>i<2. fst (next_message cli_standalone i) = 0"
          "\<exists>i<2. fst (next_message cli_null_handle i) = 0"
    by (simp_all add: cli_standalone_def cli_null_handle_def quit_after_quits)
  have q': "\<not> (\<exists>i<1. fst (next_message cli_standalone i) = 0)"
           "\<not> (\<exists>i<1. fst (next_message cli_null_handle i) = 0)"
    by (simp_all add: cli_standalone_def cli_null_handle_def quit_after_def)
  have l: "loop_events 2 cli_standalone 0 =
             [GetMessage, TranslateMessage 0, DispatchMessage 0, GetMessage]"
          "loop_events 2 cli_null_handle 0 =
             [GetMessage, TranslateMessage 0, DispatchMessage 0, GetMessage]"
    by (simp_all add: numeral_2_eq_2 cli_standalone_def cli_null_handle_def quit_after_def)
  show ?thesis
    using h q q' l cli_window_hidden_if_handle [where e = cli_standalone and fuel = 2]
      cli_window_hidden_if_handle [where e = cli_standalone and fuel = 1]
      cli_window_hidden_if_handle [where e = cli_null_handle and fuel = 2]
      cli_window_hidden_if_handle [where e = cli_null_handle and fuel = 1]
      cli_window_hidden_if_handle [where e = gui_launch and fuel = 2]
    by simp
qed

text \<open>
  Claim C5. The vector returned by \<^verbatim>\<open>GetCommandLineArguments()\<close> is what
  \<^verbatim>\<open>set_dart_entrypoint_arguments\<close> receives, unchanged and in order: the call is made
  exactly once in every run, with that very list, and the project ends up holding it.
\<close>

theorem arguments_forwarded_verbatim:
  "filter is_Set_dart_entrypoint_arguments (trace (fst (wWinMain fuel e))) =
     [Set_dart_entrypoint_arguments (command_line e)]
   \<and> dart_entrypoint_arguments (fst (wWinMain fuel e)) = command_line e"
  by (simp add: wWinMain_trace wWinMain_locals filter_loop_events)

text \<open>
  The second scenario of the specification: the two tokens arrive as they were given.
\<close>

theorem arguments_forwarded_verbatim_witness:
  "filter is_Set_dart_entrypoint_arguments (trace (fst (wWinMain 2 cli_from_terminal))) =
     [Set_dart_entrypoint_arguments [''--flash'', ''device1'']]
   \<and> dart_entrypoint_arguments (fst (wWinMain 2 cli_from_terminal)) = [''--flash'', ''device1'']"
  using arguments_forwarded_verbatim [of 2 cli_from_terminal]
  by (simp add: cli_from_terminal_def)

text \<open>
  Claim C6. \<open>has_cli_args\<close> is exactly "the argument list is not empty", and whenever the
  list is not empty and the parent console cannot be attached, \<^verbatim>\<open>CreateAndAttachConsole\<close>
  is called (once).
\<close>

theorem has_cli_args_and_new_console:
  "has_cli_args (fst (wWinMain fuel e)) = (command_line e \<noteq> [])
   \<and> (command_line e \<noteq> [] \<and> \<not> attach_console_ok e \<longrightarrow>
        count_list (trace (fst (wWinMain fuel e))) CreateAndAttachConsole = 1)"
  using loop_events_no_setup(1) [of fuel e 0]
  by (simp add: wWinMain_trace wWinMain_locals count_list_0_iff)

text \<open>
  Concrete runs: one argument and no parent console; no argument at all.
\<close>

theorem has_cli_args_and_new_console_witness:
  "has_cli_args (fst (wWinMain 2 cli_standalone))
   \<and> command_line cli_standalone \<noteq> [] \<and> \<not> attach_console_ok cli_standalone
   \<and> count_list (trace (fst (wWinMain 2 cli_standalone))) CreateAndAttachConsole = 1
   \<and> \<not> has_cli_args (fst (wWinMain 2 gui_launch))"
  using has_cli_args_and_new_console [of 2 cli_standalone]
    has_cli_args_and_new_console [of 2 gui_launch]
  by (simp add: cli_standalone_def gui_launch_def)

text \<open>
  Claim C7. The function returns \<^verbatim>\<open>EXIT_FAILURE\<close> (non-zero) exactly when
  \<^verbatim>\<open>window.Create\<close> fails, and \<^verbatim>\<open>EXIT_SUCCESS\<close> (zero) exactly when the window was
  created and \<^verbatim>\<open>GetMessage\<close> answered \<open>0\<close> within the calls observed; it returns nothing
  else. A run with a created window returns for some bound exactly when some
  \<^verbatim>\<open>GetMessage\<close> call answers \<open>0\<close>.
\<close>

theorem exit_status_taxonomy:
  "(snd (wWinMain fuel e) = Some EXIT_FAILURE) = (\<not> create_ok e)
   \<and> (snd (wWinMain fuel e) = Some EXIT_SUCCESS)
       = (create_ok e \<and> (\<exists>i<fuel. fst (next_message e i) = 0))
   \<and> (snd (wWinMain fuel e) = None \<or> snd (wWinMain fuel e) = Some EXIT_SUCCESS
        \<or> snd (wWinMain fuel e) = Some EXIT_FAILURE)
   \<and> (\<exists>n. snd (wWinMain n e) = Some EXIT_SUCCESS)
       = (create_ok e \<and> (\<exists>i. fst (next_message e i) = 0))
   \<and> EXIT_SUCCESS = 0 \<and> EXIT_FAILURE \<noteq> 0"
proof -
  have ne: "EXIT_SUCCESS \<noteq> EXIT_FAILURE"
    by (simp add: EXIT_FAILURE_def EXIT_SUCCESS_def)
  have "(\<exists>n. \<exists>i<n. fst (next_message e i) = 0) = (\<exists>i. fst (next_message e i) = 0)"
    by (metis lessI)
  then have "(\<exists>n. snd (wWinMain n e) = Some EXIT_SUCCESS)
       = (create_ok e \<and> (\<exists>i. fst (next_message e i) = 0))"
    using ne by (auto simp: wWinMain_status)
  then show ?thesis
    by (simp add: wWinMain_status EXIT_FAILURE_def EXIT_SUCCESS_def)
qed

text \<open>
  Concrete runs: two messages and then the quit, observed for three and for two calls of
  \<^verbatim>\<open>GetMessage\<close>; and a run whose window cannot be created.
\<close>

theorem exit_status_taxonomy_witness:
  "create_ok gui_launch \<and> fst (next_message gui_launch 2) = 0
   \<and> snd (wWinMain 3 gui_launch) = Some EXIT_SUCCESS
   \<and> snd (wWinMain 2 gui_launch) = None
   \<and> \<not> create_ok create_fails \<and> snd (wWinMain 3 create_fails) = Some EXIT_FAILURE"
proof -
  have q: "(\<exists>i<3. fst (next_message gui_launch i) = 0)"
          "\<not> (\<exists>i<2. fst (next_message gui_launch i) = 0)"
    by (simp_all add: gui_launch_def quit_after_quits)
  have ne: "EXIT_SUCCESS \<noteq> EXIT_FAILURE" by (simp add: EXIT_SUCCESS_def EXIT_FAILURE_def)
  have c: "create_ok gui_launch" "\<not> create_ok create_fails"
          "fst (next_message gui_launch 2) = 0"
    by (simp_all add: gui_launch_def create_fails_def quit_after_def)
  show ?thesis
    using q c ne exit_status_taxonomy [of 3 gui_launch] exit_status_taxonomy [of 2 gui_launch]
      exit_status_taxonomy [of 3 create_fails]
    by auto
qed

text \<open>
  Claim C8. Every run makes exactly one \<^verbatim>\<open>Create\<close> call, and its title, origin and size
  are the constants \<open>EasyGUIFlashTool\<close>, \<open>(10, 10)\<close> and \<open>1280 x 720\<close>, whatever the
  arguments and the environment are.
\<close>

theorem window_geometry_fixed:
  "filter is_Create (trace (fst (wWinMain fuel e))) =
     [Create ''EasyGUIFlashTool'' (Point 10 10) (Size 1280 720)]"
  by (simp add: wWinMain_trace filter_loop_events)

text \<open>
  The same call in a concrete run.
\<close>

theorem window_geometry_fixed_witness:
  "filter is_Create (trace (fst (wWinMain 2 cli_standalone))) =
     [Create ''EasyGUIFlashTool'' (Point 10 10) (Size 1280 720)]"
  using window_geometry_fixed [of 2 cli_standalone] by simp

text \<open>
  Claim C9. After \<^verbatim>\<open>std::move\<close> the vector \<^verbatim>\<open>command_line_arguments\<close> is never read:
  whatever the moved-from vector holds, the calls made and the exit status are the same,
  and the branch on argument presence is the one fixed by \<open>has_cli_args\<close>, computed from
  the original list.
\<close>

theorem moved_arguments_never_read:
  "trace (fst (wWinMain fuel (e\<lparr>moved_from := a\<rparr>))) = trace (fst (wWinMain fuel e))
   \<and> snd (wWinMain fuel (e\<lparr>moved_from := a\<rparr>)) = snd (wWinMain fuel e)
   \<and> has_cli_args (fst (wWinMain fuel (e\<lparr>moved_from := a\<rparr>))) = (command_line e \<noteq> [])
   \<and> dart_entrypoint_arguments (fst (wWinMain fuel (e\<lparr>moved_from := a\<rparr>))) = command_line e"
proof -
  have nm: "next_message (e\<lparr>moved_from := a\<rparr>) = next_message e" by simp
  show ?thesis
    by (simp add: wWinMain_trace wWinMain_status wWinMain_locals loop_events_env_cong [OF nm])
qed

text \<open>
  Concrete runs in which the moved-from vector is left non-empty.
\<close>

theorem moved_arguments_never_read_witness:
  "trace (fst (wWinMain 2 (cli_standalone\<lparr>moved_from := [''stale'']\<rparr>))) =
     trace (fst (wWinMain 2 cli_standalone))
   \<and> snd (wWinMain 2 (cli_standalone\<lparr>moved_from := [''stale'']\<rparr>)) =
     snd (wWinMain 2 cli_standalone)
   \<and> has_cli_args (fst (wWinMain 2 (gui_launch\<lparr>moved_from := [''stale'']\<rparr>))) = False"
  using moved_arguments_never_read [where fuel = 2 and e = cli_standalone and a = "[''stale'']"]
    moved_arguments_never_read [where fuel = 2 and e = gui_launch and a = "[''stale'']"]
  by (simp add: gui_launch_def)

text \<open>
  Claim C10. \<^verbatim>\<open>ShowWindow\<close> is only ever called with the non-null handle that
  \<^verbatim>\<open>GetHandle\<close> returned (and with \<^verbatim>\<open>SW_HIDE\<close>). When the handle is null the run is the
  run with any other handle \<open>h'\<close>, minus the \<^verbatim>\<open>ShowWindow\<close> call: same other calls, same
  exit status.
\<close>

theorem hide_guarded_by_handle:
  "(ShowWindow h c \<in> set (trace (fst (wWinMain fuel e))) \<longrightarrow>
        h \<noteq> 0 \<and> h = window_handle e \<and> c = SW_HIDE)
   \<and> (window_handle e = 0 \<longrightarrow>
        trace (fst (wWinMain fuel e)) =
          filter (\<lambda>x. \<not> is_ShowWindow x)
            (trace (fst (wWinMain fuel (e\<lparr>window_handle := h'\<rparr>))))
        \<and> snd (wWinMain fuel e) = snd (wWinMain fuel (e\<lparr>window_handle := h'\<rparr>)))"
proof -
  have nm: "next_message (e\<lparr>window_handle := h'\<rparr>) = next_message e" by simp
  show ?thesis
    by (simp add: wWinMain_trace wWinMain_status loop_events_keep loop_events_no_ShowWindow
        loop_events_env_cong [OF nm])
qed

text \<open>
  Concrete runs: with the handle \<open>7\<close> the window is hidden with that handle; with a null
  handle the run is the same but for the hide call.
\<close>

theorem hide_guarded_by_handle_witness:
  "ShowWindow 7 SW_HIDE \<in> set (trace (fst (wWinMain 2 cli_standalone)))
   \<and> (7::nat) \<noteq> 0 \<and> 7 = window_handle cli_standalone
   \<and> window_handle cli_null_handle = 0
   \<and> trace (fst (wWinMain 2 cli_null_handle)) =
       filter (\<lambda>x. \<not> is_ShowWindow x)
         (trace (fst (wWinMain 2 (cli_null_handle\<lparr>window_handle := 7\<rparr>))))
   \<and> snd (wWinMain 2 cli_null_handle) =
       snd (wWinMain 2 (cli_null_handle\<lparr>window_handle := 7\<rparr>))"
proof -
  have s: "ShowWindow 7 SW_HIDE \<in> set (trace (fst (wWinMain 2 cli_standalone)))"
    by (simp add: wWinMain_trace cli_standalone_def)
  have z: "window_handle cli_null_handle = 0" by (simp add: cli_null_handle_def)
  show ?thesis
    using s z hide_guarded_by_handle [where h = 7 and c = SW_HIDE and fuel = 2 and e = cli_standalone and h' = 7]
      hide_guarded_by_handle [where h = 7 and c = SW_HIDE and fuel = 2 and e = cli_null_handle and h' = 7]
    by (simp add: cli_standalone_def)
qed

end
